theory Spec2Isabelle
  imports Main "HOL-Library.Word"
begin

section \<open>Model signature verification (model\_verification.cpp)\<close>

text \<open>
  A shallow embedding of \<^verbatim>\<open>verify_model_signature\<close> and \<^verbatim>\<open>load_model_safely\<close>.
  The mbedTLS primitives are external to the repository: they are a parameter of the
  model (a record of functions), and every theorem below holds for any behaviour of
  them. What the C code does besides returning a value (calling a primitive,
  printing a line, initialising and freeing a context) is recorded, in program
  order, in a list of events returned next to the return value.
\<close>

subsection \<open>C types\<close>

text \<open>
  \<^verbatim>\<open>int\<close> is a 32-bit two's complement word (\<open>- 1\<close> is \<open>0xFFFFFFFF\<close>);
  the code only compares return codes with 0 and never computes with them.
  \<^verbatim>\<open>size_t\<close> values are only handed on, never computed with, except for
  \<^verbatim>\<open>strlen(PUBLIC_KEY_PEM) + 1\<close>, which is far below any overflow.
\<close>

type_synonym byte = "8 word"
type_synonym cint = "32 word"
type_synonym size_t = nat

text \<open>The macro \<^verbatim>\<open>PUBLIC_KEY_PEM\<close>: three adjacent string literals.\<close>

definition PUBLIC_KEY_PEM :: string where
  "PUBLIC_KEY_PEM =
     ''-----BEGIN PUBLIC KEY-----\<newline>'' @
     ''MFkwEwYHKoZIzj0CAQYIKoZIzj0CAQcDQgAE...\<newline>'' @
     ''-----END PUBLIC KEY-----\<newline>''"

definition strlen :: "string \<Rightarrow> size_t" where
  "strlen s = length s"

text \<open>
  The bytes at \<^verbatim>\<open>(const unsigned char*) s\<close> for a string literal \<open>s\<close>: its
  characters and the terminating NUL.
\<close>

definition c_bytes :: "string \<Rightarrow> byte list" where
  "c_bytes s = map of_char s @ [0]"

text \<open>
  \<^verbatim>\<open>model_package_t\<close>. A pointer with its size field is a byte list together
  with the size, kept apart as the struct keeps them: nothing in the code relates
  the two. The package pointer and the two strings are taken to be valid (not null).
\<close>

record model_package_t =
  model_data :: "byte list"
  model_size :: size_t
  signature :: "byte list"
  signature_size :: size_t
  model_id :: string
  model_version :: string

subsection \<open>The mbedTLS primitives\<close>

text \<open>
  The digest selector of \<^verbatim>\<open>mbedtls/md.h\<close>; the code only uses
  \<^verbatim>\<open>MBEDTLS_MD_SHA256\<close>.
\<close>

datatype mbedtls_md_type_t =
  MBEDTLS_MD_NONE | MBEDTLS_MD_SHA1 | MBEDTLS_MD_SHA224 | MBEDTLS_MD_SHA256
  | MBEDTLS_MD_SHA384 | MBEDTLS_MD_SHA512

text \<open>
  The library, as far as the code calls it. \<open>'pk\<close> is the content of an
  \<^verbatim>\<open>mbedtls_pk_context\<close>, \<open>'sha\<close> that of an \<^verbatim>\<open>mbedtls_sha256_context\<close>.
  A primitive that takes a non-const context pointer returns the new content with
  its return code; \<^verbatim>\<open>mbedtls_sha256_finish_ret\<close> also returns what it wrote to
  the 32-byte output buffer. The two \<^verbatim>\<open>_init\<close> fields are the content of a
  freshly initialised context.
\<close>

record ('pk, 'sha) mbedtls =
  mbedtls_pk_init :: "'pk"
  mbedtls_sha256_init :: "'sha"
  mbedtls_pk_parse_public_key :: "'pk \<Rightarrow> byte list \<Rightarrow> size_t \<Rightarrow> cint \<times> 'pk"
  mbedtls_sha256_starts_ret :: "'sha \<Rightarrow> cint \<Rightarrow> cint \<times> 'sha"
  mbedtls_sha256_update_ret :: "'sha \<Rightarrow> byte list \<Rightarrow> size_t \<Rightarrow> cint \<times> 'sha"
  mbedtls_sha256_finish_ret :: "'sha \<Rightarrow> cint \<times> 'sha \<times> byte list"
  mbedtls_pk_verify ::
    "'pk \<Rightarrow> mbedtls_md_type_t \<Rightarrow> byte list \<Rightarrow> size_t \<Rightarrow> byte list \<Rightarrow> size_t \<Rightarrow> cint \<times> 'pk"

subsection \<open>Events\<close>

text \<open>An argument of a \<^verbatim>\<open>printf\<close> call: \<^verbatim>\<open>%d\<close> takes an int, \<^verbatim>\<open>%s\<close> a string.\<close>

datatype printf_arg = Arg_int cint | Arg_str string

text \<open>
  One event per library call and per \<^verbatim>\<open>printf\<close>, with the arguments the code
  passes. \<open>Pk_verify\<close> keeps the content of the key context it is handed, the key
  handle; elsewhere the context argument is the function's own \<^verbatim>\<open>pk\<close> or
  \<^verbatim>\<open>sha256\<close> and is left out. \<open>Printf\<close> keeps the format string and the
  arguments.
\<close>

datatype 'pk event =
  Pk_init
  | Sha256_init
  | Pk_parse_public_key "byte list" size_t
  | Sha256_starts cint
  | Sha256_update "byte list" size_t
  | Sha256_finish
  | Pk_verify 'pk mbedtls_md_type_t "byte list" size_t "byte list" size_t
  | Printf string "printf_arg list"
  | Pk_free
  | Sha256_free

subsection \<open>verify\_model\_signature\<close>

text \<open>
  The label \<^verbatim>\<open>cleanup:\<close>, where every \<^verbatim>\<open>goto\<close> and the fall-through arrive:
  both contexts are freed, then \<^verbatim>\<open>ret\<close> is returned.
\<close>

definition cleanup :: "cint \<Rightarrow> 'pk event list \<Rightarrow> cint \<times> 'pk event list" where
  "cleanup ret tr = (ret, tr @ [Pk_free, Sha256_free])"

definition verify_model_signature ::
  "('pk, 'sha) mbedtls \<Rightarrow> model_package_t \<Rightarrow> cint \<times> 'pk event list" where
  "verify_model_signature L package =
    (let pk0 = mbedtls_pk_init L;
         sha0 = mbedtls_sha256_init L;
         t0 = [Pk_init, Sha256_init];
         keylen = strlen PUBLIC_KEY_PEM + 1;
         (ret, pk) = mbedtls_pk_parse_public_key L pk0 (c_bytes PUBLIC_KEY_PEM) keylen;
         t1 = t0 @ [Pk_parse_public_key (c_bytes PUBLIC_KEY_PEM) keylen]
     in
     if ret \<noteq> 0 then
       cleanup ret (t1 @ [Printf ''Failed to parse public key: %d\<newline>'' [Arg_int ret]])
     else
     let (ret, sha1) = mbedtls_sha256_starts_ret L sha0 0;
         t2 = t1 @ [Sha256_starts 0]
     in
     if ret \<noteq> 0 then cleanup ret t2
     else
     let (ret, sha2) =
           mbedtls_sha256_update_ret L sha1 (model_data package) (model_size package);
         t3 = t2 @ [Sha256_update (model_data package) (model_size package)]
     in
     if ret \<noteq> 0 then cleanup ret t3
     else
     let (ret, sha3, hash) = mbedtls_sha256_finish_ret L sha2;
         t4 = t3 @ [Sha256_finish]
     in
     if ret \<noteq> 0 then cleanup ret t4
     else
     let (ret, pk') =
           mbedtls_pk_verify L pk MBEDTLS_MD_SHA256 hash 32
             (signature package) (signature_size package);
         t5 = t4 @ [Pk_verify pk MBEDTLS_MD_SHA256 hash 32
                      (signature package) (signature_size package)]
     in
     if ret = 0 then
       cleanup ret
         (t5 @ [Printf ''Model signature verified: %s v%s\<newline>''
                  [Arg_str (model_id package), Arg_str (model_version package)]])
     else
       cleanup ret
         (t5 @ [Printf ''Model signature verification failed: %d\<newline>'' [Arg_int ret]]))"

subsection \<open>load\_model\_safely\<close>

text \<open>
  The model loading itself is a comment in the source (\<^verbatim>\<open>// ... model loading code ...\<close>):
  after a successful verification the function does nothing but return 0.
\<close>

definition load_model_safely ::
  "('pk, 'sha) mbedtls \<Rightarrow> model_package_t \<Rightarrow> cint \<times> 'pk event list" where
  "load_model_safely L package =
    (let (ret, tr) = verify_model_signature L package
     in if ret \<noteq> 0 then (- 1, tr) else (0, tr))"

subsection \<open>What each step returns\<close>

text \<open>
  The result of each primitive when it is run on the contexts the steps before it
  left behind: the vocabulary in which the theorems speak about "step \<open>n\<close> succeeds".
  They are not used in the definitions above.
\<close>

definition key_parse :: "('pk, 'sha) mbedtls \<Rightarrow> cint \<times> 'pk" where
  "key_parse L =
     mbedtls_pk_parse_public_key L (mbedtls_pk_init L)
       (c_bytes PUBLIC_KEY_PEM) (strlen PUBLIC_KEY_PEM + 1)"

definition sha_starts :: "('pk, 'sha) mbedtls \<Rightarrow> cint \<times> 'sha" where
  "sha_starts L = mbedtls_sha256_starts_ret L (mbedtls_sha256_init L) 0"

definition sha_update :: "('pk, 'sha) mbedtls \<Rightarrow> model_package_t \<Rightarrow> cint \<times> 'sha" where
  "sha_update L p =
     mbedtls_sha256_update_ret L (snd (sha_starts L)) (model_data p) (model_size p)"

definition sha_finish ::
  "('pk, 'sha) mbedtls \<Rightarrow> model_package_t \<Rightarrow> cint \<times> 'sha \<times> byte list" where
  "sha_finish L p = mbedtls_sha256_finish_ret L (snd (sha_update L p))"

definition digest_of :: "('pk, 'sha) mbedtls \<Rightarrow> model_package_t \<Rightarrow> byte list" where
  "digest_of L p = snd (snd (sha_finish L p))"

definition sig_check :: "('pk, 'sha) mbedtls \<Rightarrow> model_package_t \<Rightarrow> cint \<times> 'pk" where
  "sig_check L p =
     mbedtls_pk_verify L (snd (key_parse L)) MBEDTLS_MD_SHA256 (digest_of L p) 32
       (signature p) (signature_size p)"

text \<open>The number of the first step whose return code is not 0 (5 when none is).\<close>

definition first_failure :: "('pk, 'sha) mbedtls \<Rightarrow> model_package_t \<Rightarrow> nat" where
  "first_failure L p =
     (if fst (key_parse L) \<noteq> 0 then 1
      else if fst (sha_starts L) \<noteq> 0 then 2
      else if fst (sha_update L p) \<noteq> 0 then 3
      else if fst (sha_finish L p) \<noteq> 0 then 4
      else 5)"

text \<open>The five steps in the order of the specification, as events.\<close>

definition the_steps :: "('pk, 'sha) mbedtls \<Rightarrow> model_package_t \<Rightarrow> 'pk event list" where
  "the_steps L p =
     [Pk_parse_public_key (c_bytes PUBLIC_KEY_PEM) (strlen PUBLIC_KEY_PEM + 1),
      Sha256_starts 0,
      Sha256_update (model_data p) (model_size p),
      Sha256_finish,
      Pk_verify (snd (key_parse L)) MBEDTLS_MD_SHA256 (digest_of L p) 32
        (signature p) (signature_size p)]"

subsection \<open>Reading a trace\<close>

fun is_printf :: "'pk event \<Rightarrow> bool" where
  "is_printf (Printf fmt args) = True"
| "is_printf e = False"

text \<open>The library calls of a trace, and its log lines.\<close>

definition calls :: "'pk event list \<Rightarrow> 'pk event list" where
  "calls tr = filter (\<lambda>e. \<not> is_printf e) tr"

definition log_lines :: "'pk event list \<Rightarrow> 'pk event list" where
  "log_lines tr = filter is_printf tr"

text \<open>A log line names the model when its arguments hold both the id and the version.\<close>

fun names_model :: "model_package_t \<Rightarrow> 'pk event \<Rightarrow> bool" where
  "names_model p (Printf fmt args) =
     (Arg_str (model_id p) \<in> set args \<and> Arg_str (model_version p) \<in> set args)"
| "names_model p e = False"

text \<open>The contexts that are initialised and not yet freed after a trace.\<close>

datatype crypto_context = Pk_context | Sha256_context

fun held :: "crypto_context list \<Rightarrow> 'pk event list \<Rightarrow> crypto_context list" where
  "held cs [] = cs"
| "held cs (Pk_init # es) = held (Pk_context # cs) es"
| "held cs (Sha256_init # es) = held (Sha256_context # cs) es"
| "held cs (Pk_free # es) = held (removeAll Pk_context cs) es"
| "held cs (Sha256_free # es) = held (removeAll Sha256_context cs) es"
| "held cs (e # es) = held cs es"

subsection \<open>The gate as the specification words it\<close>

text \<open>
  Sections 3, 4.1, 4.2 and 7 of the specification: a tagged outcome, a Digest Engine,
  and a Verification Gate whose trusted key is an argument of the call. It is written
  from the specification's words, over the same primitives, to be compared with
  \<open>verify_model_signature\<close>.
\<close>

datatype rejection = KeyParseError | DigestComputationError | SignatureInvalid

datatype VerificationOutcome = Admitted | Rejected rejection

definition spec_digest :: "('pk, 'sha) mbedtls \<Rightarrow> byte list \<Rightarrow> size_t \<Rightarrow> byte list option" where
  "spec_digest L payload n =
    (let (r1, c1) = mbedtls_sha256_starts_ret L (mbedtls_sha256_init L) 0 in
     if r1 \<noteq> 0 then None
     else let (r2, c2) = mbedtls_sha256_update_ret L c1 payload n in
     if r2 \<noteq> 0 then None
     else let (r3, c3, h) = mbedtls_sha256_finish_ret L c2 in
     if r3 \<noteq> 0 then None else Some h)"

definition spec_verify ::
  "('pk, 'sha) mbedtls \<Rightarrow> model_package_t \<Rightarrow> byte list \<Rightarrow> VerificationOutcome" where
  "spec_verify L package trustedKey =
    (let (r, k) =
       mbedtls_pk_parse_public_key L (mbedtls_pk_init L) trustedKey (length trustedKey)
     in
     if r \<noteq> 0 then Rejected KeyParseError
     else case spec_digest L (model_data package) (model_size package) of
       None \<Rightarrow> Rejected DigestComputationError
     | Some h \<Rightarrow>
         if fst (mbedtls_pk_verify L k MBEDTLS_MD_SHA256 h 32
                   (signature package) (signature_size package)) = 0
         then Admitted else Rejected SignatureInvalid)"

subsection \<open>A test double of the library, and test packages\<close>

text \<open>
  A stand-in for mbedTLS with no cryptography in it, to run the code on concrete
  inputs. It parses exactly one key, \<open>good_key\<close>, and the parsed key is the key
  handle; its digest is 32 copies of the byte sum of the input; its update step
  returns \<open>sha_ret\<close>; its signature check refuses a context that holds no key, and
  takes a signature as valid when it is the digest itself. The error codes are
  mbedTLS's \<^verbatim>\<open>MBEDTLS_ERR_PK_INVALID_PUBKEY\<close>, \<^verbatim>\<open>MBEDTLS_ERR_PK_BAD_INPUT_DATA\<close>,
  \<^verbatim>\<open>MBEDTLS_ERR_PK_SIG_LEN_MISMATCH\<close> and \<^verbatim>\<open>MBEDTLS_ERR_ECP_VERIFY_FAILED\<close>.
\<close>

definition toy_mbedtls :: "byte list \<Rightarrow> cint \<Rightarrow> (byte list, byte list) mbedtls" where
  "toy_mbedtls good_key sha_ret =
    \<lparr> mbedtls_pk_init = [],
      mbedtls_sha256_init = [],
      mbedtls_pk_parse_public_key =
        (\<lambda>pk key keylen. if take keylen key = good_key then (0, good_key) else (- 0x3B00, pk)),
      mbedtls_sha256_starts_ret = (\<lambda>ctx is224. (0, [])),
      mbedtls_sha256_update_ret = (\<lambda>ctx input ilen. (sha_ret, ctx @ take ilen input)),
      mbedtls_sha256_finish_ret = (\<lambda>ctx. (0, ctx, replicate 32 (sum_list ctx))),
      mbedtls_pk_verify =
        (\<lambda>pk md hash hash_len sig sig_len.
           (if pk = [] then - 0x3E80
            else if sig_len \<noteq> hash_len then - 0x3900
            else if take sig_len sig = take hash_len hash then 0
            else - 0x4E00, pk)) \<rparr>"

text \<open>The double that knows the embedded key, and one that knows another key.\<close>

definition lib_ok :: "(byte list, byte list) mbedtls" where
  "lib_ok = toy_mbedtls (c_bytes PUBLIC_KEY_PEM) 0"

definition lib_other_key :: "(byte list, byte list) mbedtls" where
  "lib_other_key = toy_mbedtls [] 0"

definition lib_sha_fails :: "(byte list, byte list) mbedtls" where
  "lib_sha_fails = toy_mbedtls (c_bytes PUBLIC_KEY_PEM) (- 0x0037)"

definition pkg_good :: model_package_t where
  "pkg_good =
    \<lparr> model_data = [1, 2, 3], model_size = 3,
      signature = replicate 32 6, signature_size = 32,
      model_id = ''object_detector_v2'', model_version = ''2.1.1'' \<rparr>"

definition pkg_bad_sig :: model_package_t where
  "pkg_bad_sig = pkg_good \<lparr> signature := replicate 32 7 \<rparr>"

definition pkg_short_sig :: model_package_t where
  "pkg_short_sig = pkg_good \<lparr> signature_size := 31 \<rparr>"

definition pkg_empty :: model_package_t where
  "pkg_empty = pkg_good \<lparr> model_data := [], model_size := 0, signature := replicate 32 0 \<rparr>"

text \<open>The good package under another name and version.\<close>

definition pkg_renamed :: model_package_t where
  "pkg_renamed = pkg_good \<lparr> model_id := ''unrelated'', model_version := ''0.0.1'' \<rparr>"

section \<open>Exit paths of verify\_model\_signature\<close>

text \<open>
  One lemma per way out of the function: the return value and the whole trace, for
  any library and any package.
\<close>

lemmas step_defs = key_parse_def sha_starts_def sha_update_def sha_finish_def
  digest_of_def sig_check_def

lemma vms_key_fails:
  "fst (key_parse L) \<noteq> 0 \<Longrightarrow>
   verify_model_signature L p =
     (fst (key_parse L),
      [Pk_init, Sha256_init,
       Pk_parse_public_key (c_bytes PUBLIC_KEY_PEM) (strlen PUBLIC_KEY_PEM + 1),
       Printf ''Failed to parse public key: %d\<newline>'' [Arg_int (fst (key_parse L))],
       Pk_free, Sha256_free])"
  by (simp add: verify_model_signature_def step_defs cleanup_def Let_def case_prod_beta)

lemma vms_starts_fails:
  "fst (key_parse L) = 0 \<Longrightarrow> fst (sha_starts L) \<noteq> 0 \<Longrightarrow>
   verify_model_signature L p =
     (fst (sha_starts L),
      [Pk_init, Sha256_init,
       Pk_parse_public_key (c_bytes PUBLIC_KEY_PEM) (strlen PUBLIC_KEY_PEM + 1),
       Sha256_starts 0, Pk_free, Sha256_free])"
  by (simp add: verify_model_signature_def step_defs cleanup_def Let_def case_prod_beta)

lemma vms_update_fails:
  "fst (key_parse L) = 0 \<Longrightarrow> fst (sha_starts L) = 0 \<Longrightarrow> fst (sha_update L p) \<noteq> 0 \<Longrightarrow>
   verify_model_signature L p =
     (fst (sha_update L p),
      [Pk_init, Sha256_init,
       Pk_parse_public_key (c_bytes PUBLIC_KEY_PEM) (strlen PUBLIC_KEY_PEM + 1),
       Sha256_starts 0, Sha256_update (model_data p) (model_size p),
       Pk_free, Sha256_free])"
  by (simp add: verify_model_signature_def step_defs cleanup_def Let_def case_prod_beta)

lemma vms_finish_fails:
  "fst (key_parse L) = 0 \<Longrightarrow> fst (sha_starts L) = 0 \<Longrightarrow> fst (sha_update L p) = 0 \<Longrightarrow>
   fst (sha_finish L p) \<noteq> 0 \<Longrightarrow>
   verify_model_signature L p =
     (fst (sha_finish L p),
      [Pk_init, Sha256_init,
       Pk_parse_public_key (c_bytes PUBLIC_KEY_PEM) (strlen PUBLIC_KEY_PEM + 1),
       Sha256_starts 0, Sha256_update (model_data p) (model_size p), Sha256_finish,
       Pk_free, Sha256_free])"
  by (simp add: verify_model_signature_def step_defs cleanup_def Let_def case_prod_beta)

lemma vms_sig_fails:
  "fst (key_parse L) = 0 \<Longrightarrow> fst (sha_starts L) = 0 \<Longrightarrow> fst (sha_update L p) = 0 \<Longrightarrow>
   fst (sha_finish L p) = 0 \<Longrightarrow> fst (sig_check L p) \<noteq> 0 \<Longrightarrow>
   verify_model_signature L p =
     (fst (sig_check L p),
      [Pk_init, Sha256_init,
       Pk_parse_public_key (c_bytes PUBLIC_KEY_PEM) (strlen PUBLIC_KEY_PEM + 1),
       Sha256_starts 0, Sha256_update (model_data p) (model_size p), Sha256_finish,
       Pk_verify (snd (key_parse L)) MBEDTLS_MD_SHA256 (digest_of L p) 32
         (signature p) (signature_size p),
       Printf ''Model signature verification failed: %d\<newline>'' [Arg_int (fst (sig_check L p))],
       Pk_free, Sha256_free])"
  by (simp add: verify_model_signature_def step_defs cleanup_def Let_def case_prod_beta)

lemma vms_all_succeed:
  "fst (key_parse L) = 0 \<Longrightarrow> fst (sha_starts L) = 0 \<Longrightarrow> fst (sha_update L p) = 0 \<Longrightarrow>
   fst (sha_finish L p) = 0 \<Longrightarrow> fst (sig_check L p) = 0 \<Longrightarrow>
   verify_model_signature L p =
     (0,
      [Pk_init, Sha256_init,
       Pk_parse_public_key (c_bytes PUBLIC_KEY_PEM) (strlen PUBLIC_KEY_PEM + 1),
       Sha256_starts 0, Sha256_update (model_data p) (model_size p), Sha256_finish,
       Pk_verify (snd (key_parse L)) MBEDTLS_MD_SHA256 (digest_of L p) 32
         (signature p) (signature_size p),
       Printf ''Model signature verified: %s v%s\<newline>''
         [Arg_str (model_id p), Arg_str (model_version p)],
       Pk_free, Sha256_free])"
  by (simp add: verify_model_signature_def step_defs cleanup_def Let_def case_prod_beta)

lemma vms_ret:
  "fst (verify_model_signature L p) =
     (if fst (key_parse L) \<noteq> 0 then fst (key_parse L)
      else if fst (sha_starts L) \<noteq> 0 then fst (sha_starts L)
      else if fst (sha_update L p) \<noteq> 0 then fst (sha_update L p)
      else if fst (sha_finish L p) \<noteq> 0 then fst (sha_finish L p)
      else fst (sig_check L p))"
  using vms_key_fails [of L p] vms_starts_fails [of L p] vms_update_fails [of L p]
    vms_finish_fails [of L p] vms_sig_fails [of L p] vms_all_succeed [of L p]
  by (cases "fst (sig_check L p) = 0") simp_all

lemma vms_exit_cases [case_names key_fails starts_fails update_fails finish_fails sig_fails admitted]:
  obtains
    "fst (key_parse L) \<noteq> 0"
  | "fst (key_parse L) = 0" "fst (sha_starts L) \<noteq> 0"
  | "fst (key_parse L) = 0" "fst (sha_starts L) = 0" "fst (sha_update L p) \<noteq> 0"
  | "fst (key_parse L) = 0" "fst (sha_starts L) = 0" "fst (sha_update L p) = 0"
    "fst (sha_finish L p) \<noteq> 0"
  | "fst (key_parse L) = 0" "fst (sha_starts L) = 0" "fst (sha_update L p) = 0"
    "fst (sha_finish L p) = 0" "fst (sig_check L p) \<noteq> 0"
  | "fst (key_parse L) = 0" "fst (sha_starts L) = 0" "fst (sha_update L p) = 0"
    "fst (sha_finish L p) = 0" "fst (sig_check L p) = 0"
  by blast

text \<open>The return value depends on the payload and signature fields only.\<close>

lemma vms_ret_cong:
  assumes "model_data p = model_data q" "model_size p = model_size q"
    "signature p = signature q" "signature_size p = signature_size q"
  shows "fst (verify_model_signature L p) = fst (verify_model_signature L q)"
  using assms by (simp add: vms_ret step_defs)

text \<open>The third event of every run is the parse of the embedded key.\<close>

lemma vms_third_event:
  "snd (verify_model_signature L p) ! 2 =
     Pk_parse_public_key (c_bytes PUBLIC_KEY_PEM) (strlen PUBLIC_KEY_PEM + 1)"
proof (cases rule: vms_exit_cases [where L = L and p = p])
  case key_fails
  then show ?thesis by (simp add: vms_key_fails)
next
  case starts_fails
  then show ?thesis by (simp add: vms_starts_fails)
next
  case update_fails
  then show ?thesis by (simp add: vms_update_fails)
next
  case finish_fails
  then show ?thesis by (simp add: vms_finish_fails)
next
  case sig_fails
  then show ?thesis by (simp add: vms_sig_fails)
next
  case admitted
  then show ?thesis by (simp add: vms_all_succeed)
qed

subsection \<open>The specification's gate on the embedded key\<close>

lemma length_c_bytes: "length (c_bytes s) = strlen s + 1"
  by (simp add: c_bytes_def strlen_def)

lemma strlen_PUBLIC_KEY_PEM: "strlen PUBLIC_KEY_PEM = 92"
  by code_simp

lemma spec_verify_embedded_key:
  "(spec_verify L p (c_bytes PUBLIC_KEY_PEM) = Admitted) =
   (fst (key_parse L) = 0 \<and> fst (sha_starts L) = 0 \<and> fst (sha_update L p) = 0 \<and>
    fst (sha_finish L p) = 0 \<and> fst (sig_check L p) = 0)"
  by (simp add: spec_verify_def spec_digest_def step_defs length_c_bytes Let_def case_prod_beta)

section \<open>The verification gate\<close>

text \<open>
  C1. \<open>verify_model_signature\<close> returns 0 (the package is admitted) exactly when key
  parsing, the three digest calls over the payload and the signature check all return
  0. So whenever a step fails the result is not 0 (rejected): no failure admits.
\<close>

theorem verify_admits_iff_all_steps_succeed:
  "(fst (verify_model_signature L p) = 0) =
   (fst (key_parse L) = 0 \<and> fst (sha_starts L) = 0 \<and> fst (sha_update L p) = 0 \<and>
    fst (sha_finish L p) = 0 \<and> fst (sig_check L p) = 0)"
  by (simp add: vms_ret)

theorem verify_admits_iff_all_steps_succeed_witness:
  "fst (verify_model_signature lib_ok pkg_good) = 0 \<and>
   fst (verify_model_signature lib_ok pkg_bad_sig) \<noteq> 0"
proof -
  have good: "fst (key_parse lib_ok) = 0 \<and> fst (sha_starts lib_ok) = 0 \<and>
    fst (sha_update lib_ok pkg_good) = 0 \<and> fst (sha_finish lib_ok pkg_good) = 0 \<and>
    fst (sig_check lib_ok pkg_good) = 0"
    by code_simp
  have bad: "fst (sig_check lib_ok pkg_bad_sig) \<noteq> 0"
    by code_simp
  show ?thesis
    using good bad verify_admits_iff_all_steps_succeed [of lib_ok pkg_good]
      verify_admits_iff_all_steps_succeed [of lib_ok pkg_bad_sig]
    by simp
qed

text \<open>
  C3. Every run makes its library calls in one order: both contexts are initialised;
  then come (1) the parse of the key, (2) the digest calls \<^verbatim>\<open>starts\<close>,
  \<^verbatim>\<open>update\<close> over the package's payload and size, \<^verbatim>\<open>finish\<close>, (3) the
  signature check on the key handle that the parse left, the digest that
  \<^verbatim>\<open>finish\<close> wrote, 32, and the package's signature and size, cut off after the
  first step that fails; then both contexts are freed. No step is skipped or
  reordered, and the signature check is only ever reached behind the three digest
  calls. A run cut off at one of the first four steps returns a code other than 0
  (rejected); a run that reaches the signature check returns what that primitive
  returns on the parsed key handle, the digest and the signature.
\<close>

theorem verify_steps_in_order:
  "calls (snd (verify_model_signature L p)) =
     [Pk_init, Sha256_init] @ take (first_failure L p) (the_steps L p) @ [Pk_free, Sha256_free] \<and>
   (first_failure L p < 5 \<longrightarrow> fst (verify_model_signature L p) \<noteq> 0) \<and>
   (first_failure L p = 5 \<longrightarrow> fst (verify_model_signature L p) = fst (sig_check L p))"
proof (cases rule: vms_exit_cases [where L = L and p = p])
  case key_fails
  then show ?thesis by (simp add: vms_key_fails calls_def first_failure_def the_steps_def)
next
  case starts_fails
  then show ?thesis by (simp add: vms_starts_fails calls_def first_failure_def the_steps_def)
next
  case update_fails
  then show ?thesis by (simp add: vms_update_fails calls_def first_failure_def the_steps_def)
next
  case finish_fails
  then show ?thesis by (simp add: vms_finish_fails calls_def first_failure_def the_steps_def)
next
  case sig_fails
  then show ?thesis by (simp add: vms_sig_fails calls_def first_failure_def the_steps_def)
next
  case admitted
  then show ?thesis by (simp add: vms_all_succeed calls_def first_failure_def the_steps_def)
qed

theorem verify_steps_in_order_witness:
  "calls (snd (verify_model_signature lib_sha_fails pkg_good)) =
     [Pk_init, Sha256_init,
      Pk_parse_public_key (c_bytes PUBLIC_KEY_PEM) 93,
      Sha256_starts 0, Sha256_update [1, 2, 3] 3, Pk_free, Sha256_free] \<and>
   fst (verify_model_signature lib_sha_fails pkg_good) \<noteq> 0 \<and>
   calls (snd (verify_model_signature lib_ok pkg_bad_sig)) =
     [Pk_init, Sha256_init,
      Pk_parse_public_key (c_bytes PUBLIC_KEY_PEM) 93,
      Sha256_starts 0, Sha256_update [1, 2, 3] 3, Sha256_finish,
      Pk_verify (c_bytes PUBLIC_KEY_PEM) MBEDTLS_MD_SHA256 (replicate 32 6) 32
        (replicate 32 7) 32,
      Pk_free, Sha256_free] \<and>
   fst (verify_model_signature lib_ok pkg_bad_sig) = - 0x4E00"
proof -
  have early: "first_failure lib_sha_fails pkg_good = 3"
    "take 3 (the_steps lib_sha_fails pkg_good) =
      [Pk_parse_public_key (c_bytes PUBLIC_KEY_PEM) 93, Sha256_starts 0,
       Sha256_update [1, 2, 3] 3]"
    by code_simp+
  have late: "first_failure lib_ok pkg_bad_sig = 5"
    "the_steps lib_ok pkg_bad_sig =
      [Pk_parse_public_key (c_bytes PUBLIC_KEY_PEM) 93, Sha256_starts 0,
       Sha256_update [1, 2, 3] 3, Sha256_finish,
       Pk_verify (c_bytes PUBLIC_KEY_PEM) MBEDTLS_MD_SHA256 (replicate 32 6) 32
         (replicate 32 7) 32]"
    "fst (sig_check lib_ok pkg_bad_sig) = - 0x4E00"
    by code_simp+
  show ?thesis
    using verify_steps_in_order [of lib_sha_fails pkg_good]
      verify_steps_in_order [of lib_ok pkg_bad_sig]
    by (simp add: early late)
qed

text \<open>
  C4, as stated, fails: a failure of the signature check does not collapse to one
  caller-visible value. On the test double a wrong signature and a signature of the
  wrong length both reach the signature check and fail there, and
  \<open>verify_model_signature\<close> hands its caller two different library codes.
\<close>

theorem signature_failure_codes_not_collapsed:
  "first_failure lib_ok pkg_bad_sig = 5 \<and>
   first_failure lib_ok pkg_short_sig = 5 \<and>
   fst (sig_check lib_ok pkg_bad_sig) \<noteq> 0 \<and>
   fst (sig_check lib_ok pkg_short_sig) \<noteq> 0 \<and>
   fst (verify_model_signature lib_ok pkg_bad_sig) = - 0x4E00 \<and>
   fst (verify_model_signature lib_ok pkg_short_sig) = - 0x3900 \<and>
   fst (verify_model_signature lib_ok pkg_bad_sig) \<noteq>
     fst (verify_model_signature lib_ok pkg_short_sig)"
  by code_simp

text \<open>
  C4, amended. \<open>verify_model_signature\<close> does not classify a failure: it returns the
  return code of the first primitive that fails, unchanged (and the code of the
  signature check when none failed before it).
\<close>

theorem verify_returns_first_failing_code:
  "fst (verify_model_signature L p) =
     (if fst (key_parse L) \<noteq> 0 then fst (key_parse L)
      else if fst (sha_starts L) \<noteq> 0 then fst (sha_starts L)
      else if fst (sha_update L p) \<noteq> 0 then fst (sha_update L p)
      else if fst (sha_finish L p) \<noteq> 0 then fst (sha_finish L p)
      else fst (sig_check L p))"
  by (rule vms_ret)

theorem verify_returns_first_failing_code_witness:
  "fst (verify_model_signature lib_sha_fails pkg_good) = - 0x37"
proof -
  have "fst (key_parse lib_sha_fails) = 0" "fst (sha_starts lib_sha_fails) = 0"
    "fst (sha_update lib_sha_fails pkg_good) = - 0x37"
    by code_simp+
  then show ?thesis
    using verify_returns_first_failing_code [of lib_sha_fails pkg_good] by simp
qed

text \<open>
  C5, as stated, fails: the trusted key is not an input of the call. Given the empty
  key, the specification's gate rejects the good package with \<open>KeyParseError\<close>;
  \<open>verify_model_signature\<close> has no key argument, parses the embedded
  \<^verbatim>\<open>PUBLIC_KEY_PEM\<close> and admits the package.
\<close>

theorem trusted_key_is_not_an_input:
  "spec_verify lib_ok pkg_good [] = Rejected KeyParseError \<and>
   fst (verify_model_signature lib_ok pkg_good) = 0 \<and>
   snd (verify_model_signature lib_ok pkg_good) ! 2 =
     Pk_parse_public_key (c_bytes PUBLIC_KEY_PEM) 93"
  by code_simp

text \<open>
  C5, amended. The outcome of \<open>verify_model_signature\<close> is a function of the package's
  payload and signature (with their sizes) alone, with the trusted key fixed to the
  constant \<^verbatim>\<open>PUBLIC_KEY_PEM\<close>: every call parses that key; the package is admitted
  exactly when the specification's gate admits it under that key; and two packages
  with the same payload and signature fields get the same return value, whatever
  their id and version.
\<close>

theorem verify_is_gate_with_embedded_key:
  "snd (verify_model_signature L p) ! 2 =
     Pk_parse_public_key (c_bytes PUBLIC_KEY_PEM) (strlen PUBLIC_KEY_PEM + 1) \<and>
   ((fst (verify_model_signature L p) = 0) =
    (spec_verify L p (c_bytes PUBLIC_KEY_PEM) = Admitted)) \<and>
   (model_data p = model_data q \<and> model_size p = model_size q \<and>
    signature p = signature q \<and> signature_size p = signature_size q \<longrightarrow>
    fst (verify_model_signature L p) = fst (verify_model_signature L q))"
  using vms_ret_cong [of p q L] vms_third_event [of L p]
  by (simp add: spec_verify_embedded_key vms_ret)

theorem verify_is_gate_with_embedded_key_witness:
  "spec_verify lib_ok pkg_good (c_bytes PUBLIC_KEY_PEM) = Admitted \<and>
   fst (verify_model_signature lib_ok pkg_renamed) = 0"
proof -
  have a: "fst (verify_model_signature lib_ok pkg_good) = 0"
    by code_simp
  have b: "model_data pkg_good = model_data pkg_renamed"
    "model_size pkg_good = model_size pkg_renamed"
    "signature pkg_good = signature pkg_renamed"
    "signature_size pkg_good = signature_size pkg_renamed"
    by code_simp+
  show ?thesis
    using verify_is_gate_with_embedded_key [of lib_ok pkg_good pkg_renamed] a b by simp
qed

text \<open>
  C6. When the key does not parse (the parser returns a code other than 0),
  \<open>verify_model_signature\<close> returns that code, which is not 0, so the package is never
  admitted; it reports the failure with the line \<^verbatim>\<open>Failed to parse public key\<close>, and
  neither the digest nor the signature check is run.
\<close>

theorem key_parse_failure_rejects:
  "fst (key_parse L) \<noteq> 0 \<Longrightarrow>
   fst (verify_model_signature L p) = fst (key_parse L) \<and>
   fst (verify_model_signature L p) \<noteq> 0 \<and>
   snd (verify_model_signature L p) =
     [Pk_init, Sha256_init,
      Pk_parse_public_key (c_bytes PUBLIC_KEY_PEM) (strlen PUBLIC_KEY_PEM + 1),
      Printf ''Failed to parse public key: %d\<newline>'' [Arg_int (fst (key_parse L))],
      Pk_free, Sha256_free]"
  by (simp add: vms_key_fails)

theorem key_parse_failure_rejects_witness:
  "fst (key_parse lib_other_key) \<noteq> 0 \<and>
   fst (verify_model_signature lib_other_key pkg_good) = - 0x3B00 \<and>
   snd (verify_model_signature lib_other_key pkg_good) =
     [Pk_init, Sha256_init,
      Pk_parse_public_key (c_bytes PUBLIC_KEY_PEM) 93,
      Printf ''Failed to parse public key: %d\<newline>'' [Arg_int (- 0x3B00)],
      Pk_free, Sha256_free]"
proof -
  have k: "fst (key_parse lib_other_key) = - 0x3B00"
    by code_simp
  have "fst (key_parse lib_other_key) \<noteq> 0"
    by code_simp
  from key_parse_failure_rejects [OF this, of pkg_good] show ?thesis
    by (simp add: k strlen_PUBLIC_KEY_PEM)
qed

text \<open>
  C7. In every run, also one that rejects early, both contexts are held after the
  first two events, the last two events free them, and none is held when the
  function returns.
\<close>

theorem verify_releases_contexts:
  "held [] (take 2 (snd (verify_model_signature L p))) = [Sha256_context, Pk_context] \<and>
   held [] (snd (verify_model_signature L p)) = [] \<and>
   drop (length (snd (verify_model_signature L p)) - 2) (snd (verify_model_signature L p)) =
     [Pk_free, Sha256_free]"
proof (cases rule: vms_exit_cases [where L = L and p = p])
  case key_fails
  then show ?thesis by (simp add: vms_key_fails)
next
  case starts_fails
  then show ?thesis by (simp add: vms_starts_fails)
next
  case update_fails
  then show ?thesis by (simp add: vms_update_fails)
next
  case finish_fails
  then show ?thesis by (simp add: vms_finish_fails)
next
  case sig_fails
  then show ?thesis by (simp add: vms_sig_fails)
next
  case admitted
  then show ?thesis by (simp add: vms_all_succeed)
qed

theorem verify_releases_contexts_witness:
  "held [] (take 2 (snd (verify_model_signature lib_sha_fails pkg_good))) =
     [Sha256_context, Pk_context] \<and>
   held [] (snd (verify_model_signature lib_sha_fails pkg_good)) = [] \<and>
   fst (verify_model_signature lib_sha_fails pkg_good) \<noteq> 0"
proof -
  have "fst (verify_model_signature lib_sha_fails pkg_good) \<noteq> 0"
    by code_simp
  then show ?thesis
    using verify_releases_contexts [of lib_sha_fails pkg_good] by simp
qed

text \<open>
  C8, as stated, fails: a rejected package is not named in the log. For a wrong
  signature the only line printed carries the library's return code; neither the
  model's id nor its version is an argument of any line.
\<close>

theorem rejection_log_does_not_name_model:
  "fst (verify_model_signature lib_ok pkg_bad_sig) \<noteq> 0 \<and>
   log_lines (snd (verify_model_signature lib_ok pkg_bad_sig)) =
     [Printf ''Model signature verification failed: %d\<newline>'' [Arg_int (- 0x4E00)]] \<and>
   \<not> list_ex (names_model pkg_bad_sig) (snd (verify_model_signature lib_ok pkg_bad_sig))"
  by code_simp

text \<open>
  C8, amended. When the package is admitted, exactly one line is printed, and it
  names the model by id and version. When the key does not parse, and when the
  signature check fails, exactly one line is printed: it carries the return code of
  the failing primitive and does not name the model.
\<close>

theorem verify_log_lines:
  "(fst (verify_model_signature L p) = 0 \<longrightarrow>
      log_lines (snd (verify_model_signature L p)) =
        [Printf ''Model signature verified: %s v%s\<newline>''
           [Arg_str (model_id p), Arg_str (model_version p)]] \<and>
      list_ex (names_model p) (snd (verify_model_signature L p))) \<and>
   (fst (key_parse L) \<noteq> 0 \<longrightarrow>
      log_lines (snd (verify_model_signature L p)) =
        [Printf ''Failed to parse public key: %d\<newline>'' [Arg_int (fst (key_parse L))]] \<and>
      \<not> list_ex (names_model p) (snd (verify_model_signature L p))) \<and>
   (first_failure L p = 5 \<and> fst (sig_check L p) \<noteq> 0 \<longrightarrow>
      log_lines (snd (verify_model_signature L p)) =
        [Printf ''Model signature verification failed: %d\<newline>''
           [Arg_int (fst (sig_check L p))]] \<and>
      \<not> list_ex (names_model p) (snd (verify_model_signature L p)))"
proof (intro conjI impI)
  assume "fst (verify_model_signature L p) = 0"
  then have ok: "fst (key_parse L) = 0" "fst (sha_starts L) = 0" "fst (sha_update L p) = 0"
    "fst (sha_finish L p) = 0" "fst (sig_check L p) = 0"
    by (simp_all add: vms_ret split: if_splits)
  show "log_lines (snd (verify_model_signature L p)) =
        [Printf ''Model signature verified: %s v%s\<newline>''
           [Arg_str (model_id p), Arg_str (model_version p)]]"
    by (simp add: vms_all_succeed [OF ok] log_lines_def)
  show "list_ex (names_model p) (snd (verify_model_signature L p))"
    by (simp add: vms_all_succeed [OF ok])
next
  assume k: "fst (key_parse L) \<noteq> 0"
  show "log_lines (snd (verify_model_signature L p)) =
        [Printf ''Failed to parse public key: %d\<newline>'' [Arg_int (fst (key_parse L))]]"
    by (simp add: vms_key_fails [OF k] log_lines_def)
  show "\<not> list_ex (names_model p) (snd (verify_model_signature L p))"
    by (simp add: vms_key_fails [OF k])
next
  assume "first_failure L p = 5 \<and> fst (sig_check L p) \<noteq> 0"
  then have ok: "fst (key_parse L) = 0" "fst (sha_starts L) = 0" "fst (sha_update L p) = 0"
    "fst (sha_finish L p) = 0" and s: "fst (sig_check L p) \<noteq> 0"
    by (simp_all add: first_failure_def split: if_splits)
  show "log_lines (snd (verify_model_signature L p)) =
        [Printf ''Model signature verification failed: %d\<newline>''
           [Arg_int (fst (sig_check L p))]]"
    by (simp add: vms_sig_fails [OF ok s] log_lines_def)
  show "\<not> list_ex (names_model p) (snd (verify_model_signature L p))"
    by (simp add: vms_sig_fails [OF ok s])
qed

theorem verify_log_lines_witness:
  "log_lines (snd (verify_model_signature lib_ok pkg_good)) =
     [Printf ''Model signature verified: %s v%s\<newline>''
        [Arg_str ''object_detector_v2'', Arg_str ''2.1.1'']] \<and>
   log_lines (snd (verify_model_signature lib_other_key pkg_good)) =
     [Printf ''Failed to parse public key: %d\<newline>'' [Arg_int (- 0x3B00)]] \<and>
   log_lines (snd (verify_model_signature lib_ok pkg_bad_sig)) =
     [Printf ''Model signature verification failed: %d\<newline>'' [Arg_int (- 0x4E00)]]"
proof -
  have a: "fst (verify_model_signature lib_ok pkg_good) = 0"
    "model_id pkg_good = ''object_detector_v2''" "model_version pkg_good = ''2.1.1''"
    by code_simp+
  have b: "fst (key_parse lib_other_key) = - 0x3B00"
    by code_simp
  have c: "first_failure lib_ok pkg_bad_sig = 5" "fst (sig_check lib_ok pkg_bad_sig) = - 0x4E00"
    by code_simp+
  show ?thesis
    using verify_log_lines [of lib_ok pkg_good] verify_log_lines [of lib_other_key pkg_good]
      verify_log_lines [of lib_ok pkg_bad_sig]
    by (simp add: a b c)
qed

text \<open>
  C9. \<open>verify_model_signature\<close> checks nothing about its package. Once the key has
  parsed and the digest has started, the package's payload and \<open>model_size\<close> go to the
  hash primitive as they are; once the digest is computed, its signature and
  \<open>signature_size\<close> go to the signature check as they are; and whenever the primitives
  all return 0 the package is admitted, whatever its sizes: an empty payload is not
  by itself a reason to reject.
\<close>

theorem verify_passes_sizes_unchecked:
  "(fst (key_parse L) = 0 \<and> fst (sha_starts L) = 0 \<longrightarrow>
      Sha256_update (model_data p) (model_size p) \<in> set (snd (verify_model_signature L p))) \<and>
   (first_failure L p = 5 \<longrightarrow>
      Pk_verify (snd (key_parse L)) MBEDTLS_MD_SHA256 (digest_of L p) 32
          (signature p) (signature_size p)
        \<in> set (snd (verify_model_signature L p))) \<and>
   (fst (key_parse L) = 0 \<and> fst (sha_starts L) = 0 \<and> fst (sha_update L p) = 0 \<and>
    fst (sha_finish L p) = 0 \<and> fst (sig_check L p) = 0 \<longrightarrow>
      fst (verify_model_signature L p) = 0)"
proof (cases rule: vms_exit_cases [where L = L and p = p])
  case key_fails
  then show ?thesis by (simp add: vms_key_fails first_failure_def)
next
  case starts_fails
  then show ?thesis by (simp add: vms_starts_fails first_failure_def)
next
  case update_fails
  then show ?thesis by (simp add: vms_update_fails first_failure_def)
next
  case finish_fails
  then show ?thesis by (simp add: vms_finish_fails first_failure_def)
next
  case sig_fails
  then show ?thesis by (simp add: vms_sig_fails first_failure_def)
next
  case admitted
  then show ?thesis by (simp add: vms_all_succeed first_failure_def)
qed

theorem verify_passes_sizes_unchecked_witness:
  "Sha256_update [] 0 \<in> set (snd (verify_model_signature lib_ok pkg_empty)) \<and>
   Pk_verify (c_bytes PUBLIC_KEY_PEM) MBEDTLS_MD_SHA256 (replicate 32 0) 32 (replicate 32 0) 32
     \<in> set (snd (verify_model_signature lib_ok pkg_empty)) \<and>
   Pk_verify (c_bytes PUBLIC_KEY_PEM) MBEDTLS_MD_SHA256 (replicate 32 6) 32 (replicate 32 6) 31
     \<in> set (snd (verify_model_signature lib_ok pkg_short_sig)) \<and>
   fst (verify_model_signature lib_ok pkg_empty) = 0"
proof -
  have e: "fst (key_parse lib_ok) = 0 \<and> fst (sha_starts lib_ok) = 0 \<and>
      fst (sha_update lib_ok pkg_empty) = 0 \<and> fst (sha_finish lib_ok pkg_empty) = 0 \<and>
      fst (sig_check lib_ok pkg_empty) = 0"
    by code_simp
  have f: "first_failure lib_ok pkg_empty = 5" "first_failure lib_ok pkg_short_sig = 5"
    by code_simp+
  have d: "snd (key_parse lib_ok) = c_bytes PUBLIC_KEY_PEM"
    "model_data pkg_empty = []" "model_size pkg_empty = 0"
    "digest_of lib_ok pkg_empty = replicate 32 0" "signature pkg_empty = replicate 32 0"
    "signature_size pkg_empty = 32"
    "digest_of lib_ok pkg_short_sig = replicate 32 6" "signature pkg_short_sig = replicate 32 6"
    "signature_size pkg_short_sig = 31"
    by code_simp+
  show ?thesis
    using verify_passes_sizes_unchecked [of lib_ok pkg_empty]
      verify_passes_sizes_unchecked [of lib_ok pkg_short_sig] e f
    by (simp only: d simp_thms)
qed

section \<open>The load decision\<close>

text \<open>
  C2. \<open>load_model_safely\<close> returns 0 (goes on to load) exactly when
  \<open>verify_model_signature\<close> returned 0; every other verification result, whatever
  its value, gives the same refusal \<open>- 1\<close>; and the function runs the verification
  once and does nothing else.
\<close>

theorem load_only_after_admission:
  "(fst (load_model_safely L p) = 0) = (fst (verify_model_signature L p) = 0) \<and>
   (fst (verify_model_signature L p) \<noteq> 0 \<longrightarrow> fst (load_model_safely L p) = - 1) \<and>
   snd (load_model_safely L p) = snd (verify_model_signature L p)"
  by (simp add: load_model_safely_def case_prod_beta)

theorem load_only_after_admission_witness:
  "fst (verify_model_signature lib_ok pkg_bad_sig) \<noteq> 0 \<and>
   fst (load_model_safely lib_ok pkg_bad_sig) = - 1 \<and>
   fst (verify_model_signature lib_other_key pkg_good) \<noteq> 0 \<and>
   fst (load_model_safely lib_other_key pkg_good) = - 1 \<and>
   fst (verify_model_signature lib_ok pkg_good) = 0 \<and>
   fst (load_model_safely lib_ok pkg_good) = 0"
proof -
  have "fst (verify_model_signature lib_ok pkg_bad_sig) \<noteq> 0"
    and "fst (verify_model_signature lib_other_key pkg_good) \<noteq> 0"
    and "fst (verify_model_signature lib_ok pkg_good) = 0"
    by code_simp+
  then show ?thesis
    using load_only_after_admission [of lib_ok pkg_bad_sig]
      load_only_after_admission [of lib_other_key pkg_good]
      load_only_after_admission [of lib_ok pkg_good]
    by simp
qed

text \<open>
  C10. \<open>load_model_safely\<close> returns 0 or \<open>- 1\<close> and nothing else; a verification
  result other than 0 becomes \<open>- 1\<close>; so any two failed verifications, whatever their
  codes, give the caller of \<open>load_model_safely\<close> the same value.
\<close>

theorem load_returns_0_or_minus_1:
  "(fst (load_model_safely L p) = 0 \<or> fst (load_model_safely L p) = - 1) \<and>
   (fst (verify_model_signature L p) \<noteq> 0 \<longrightarrow> fst (load_model_safely L p) = - 1) \<and>
   (fst (verify_model_signature L p) \<noteq> 0 \<and> fst (verify_model_signature L' p') \<noteq> 0 \<longrightarrow>
      fst (load_model_safely L p) = fst (load_model_safely L' p'))"
  by (simp add: load_model_safely_def case_prod_beta)

theorem load_returns_0_or_minus_1_witness:
  "fst (verify_model_signature lib_ok pkg_bad_sig) = - 0x4E00 \<and>
   fst (verify_model_signature lib_other_key pkg_good) = - 0x3B00 \<and>
   fst (load_model_safely lib_ok pkg_bad_sig) = - 1 \<and>
   fst (load_model_safely lib_other_key pkg_good) = - 1"
proof -
  have v: "fst (verify_model_signature lib_ok pkg_bad_sig) = - 0x4E00"
    "fst (verify_model_signature lib_other_key pkg_good) = - 0x3B00"
    by code_simp+
  then have "fst (verify_model_signature lib_ok pkg_bad_sig) \<noteq> 0"
    "fst (verify_model_signature lib_other_key pkg_good) \<noteq> 0"
    by simp_all
  then show ?thesis
    using v load_returns_0_or_minus_1 [of lib_ok pkg_bad_sig lib_other_key pkg_good]
      load_returns_0_or_minus_1 [of lib_other_key pkg_good lib_ok pkg_bad_sig]
    by simp
qed

end
